theory Spec2Isabelle
  imports Complex_Main "HOL-Library.Sublist"
begin

section \<open>Exceptions, sheets and values\<close>

text \<open>
  A raised Python exception. \<open>Exception m\<close> stands for an instance of any subclass of
  \<open>Exception\<close> (ValueError, KeyError, Playwright's Error and TimeoutError, ...) whose
  \<open>str(e)\<close> is \<open>m\<close>; \<open>Interrupcion\<close> stands for the exceptions outside that
  class (KeyboardInterrupt, SystemExit), which \<open>except Exception\<close> does not catch.
\<close>

datatype exc = Exception string | Interrupcion

text \<open>
  A cell of a sheet as the Excel reader hands it to pandas' parser: empty, a text, or a
  whole number. Cells of other kinds (fractional numbers, booleans, dates, errors) are
  not modelled.
\<close>

datatype celda_hoja = Vacia | Texto string | Numero int

text \<open>
  A sheet: the names pandas gives its columns (from the first row), and the rows below,
  each listing its cells in the order of the columns. A sheet with no cell at all has
  no column and no row.
\<close>

record hoja =
  h_columnas :: "string list"
  h_filas :: "celda_hoja list list"

text \<open>
  A Python value in a DataFrame after pandas converted the columns: a \<open>str\<close>, an
  \<open>int\<close>, a \<open>float\<close> or a \<open>bool\<close> (infinite floats are left out). A cell of
  a DataFrame is \<open>None\<close> for the missing value (NaN), for which \<open>isnull()\<close> holds,
  or \<open>Some v\<close>. The identifiers handed to the downloader are such cells, since
  \<open>tolist()\<close> keeps missing values and converted ones as they are.
\<close>

datatype valor = Cadena string | Entero int | Flotante real | Booleano bool

type_synonym celda = "valor option"

record dataframe =
  df_columnas :: "string list"
  df_filas :: "celda list list"

text \<open>
  pandas' conversion of a column, which line 15 leaves at its defaults (no \<open>dtype\<close>,
  no \<open>keep_default_na\<close>): given the cells of the whole column and one cell of it, the
  cell of the DataFrame. It is a parameter of the selector; \<open>conversion_pandas\<close> below
  is the instance used in the examples.
\<close>

type_synonym conversion = "celda_hoja list \<Rightarrow> celda_hoja \<Rightarrow> celda"

section \<open>The Input Selector (\<open>obtener_comunicaciones\<close>)\<close>

text \<open>The column names of line 13; the degree sign is the two bytes of its UTF-8 form.\<close>

definition col_ccoo :: string where
  "col_ccoo = ''CCOO N'' @ [CHR 0xC2, CHR 0xB0]"

definition col_organismo :: string where
  "col_organismo = ''ORGANISMO''"

text \<open>
  The cell of a sheet's row under a column name (the first column of that name); a row
  shorter than the header is empty there. The cells of a whole column.
\<close>

definition crudo :: "string list \<Rightarrow> celda_hoja list \<Rightarrow> string \<Rightarrow> celda_hoja" where
  "crudo cols fila c = (case map_of (zip cols fila) c of None \<Rightarrow> Vacia | Some v \<Rightarrow> v)"

definition columna_cruda :: "hoja \<Rightarrow> string \<Rightarrow> celda_hoja list" where
  "columna_cruda h c = map (\<lambda>f. crudo (h_columnas h) f c) (h_filas h)"

text \<open>The cell of a DataFrame's row under a column name.\<close>

definition valor :: "string list \<Rightarrow> celda list \<Rightarrow> string \<Rightarrow> celda" where
  "valor cols fila c = (case map_of (zip cols fila) c of None \<Rightarrow> None | Some v \<Rightarrow> v)"

text \<open>The cells of a row whose column name satisfies \<open>P\<close>, in column order.\<close>

definition proyectar :: "string list \<Rightarrow> (string \<Rightarrow> bool) \<Rightarrow> celda list \<Rightarrow> celda list" where
  "proyectar cols P fila = map snd (filter (\<lambda>(c, v). P c) (zip cols fila))"

text \<open>
  Python's \<open>repr\<close> of a string without quotes or backslashes, and of a list of such
  strings.
\<close>

definition py_repr :: "string \<Rightarrow> string" where
  "py_repr s = [CHR 0x27] @ s @ [CHR 0x27]"

fun unir_con_comas :: "string list \<Rightarrow> string" where
  "unir_con_comas [] = []"
| "unir_con_comas [x] = x"
| "unir_con_comas (x # y # zs) = x @ '', '' @ unir_con_comas (y # zs)"

definition py_repr_lista :: "string list \<Rightarrow> string" where
  "py_repr_lista xs = ''['' @ unir_con_comas (map py_repr xs) @ '']''"

text \<open>
  \<open>pd.read_excel(archivo, sheet_name=0, usecols=columnas)\<close>. The files are a map from
  a path to the sheets of the workbook stored there (absent: no such file, the empty path
  of a cancelled dialog, or not a workbook; the texts of those two failures are
  placeholders). The first sheet is read. A sheet with no cell gives the empty DataFrame
  without a look at \<open>usecols\<close>. Otherwise a name of \<open>usecols\<close> that is not a column
  raises ValueError, whose message lists the missing names (pandas lists them in the
  order of a Python set, here the order of \<open>usecols\<close>); the columns kept stay in the
  sheet's order and each is converted as a whole.
\<close>

definition read_excel ::
  "conversion \<Rightarrow> (string \<rightharpoonup> hoja list) \<Rightarrow> string \<Rightarrow> string list \<Rightarrow> exc + dataframe" where
  "read_excel conv archivos archivo usecols =
     (case archivos archivo of
        None \<Rightarrow> Inl (Exception ''cannot read the workbook'')
      | Some [] \<Rightarrow> Inl (Exception ''the workbook has no sheet'')
      | Some (h # _) \<Rightarrow>
          if h_columnas h = [] then Inr \<lparr>df_columnas = [], df_filas = []\<rparr>
          else if set usecols \<subseteq> set (h_columnas h)
          then Inr \<lparr>df_columnas = filter (\<lambda>c. c \<in> set usecols) (h_columnas h),
                    df_filas =
                      map (\<lambda>f. map (\<lambda>c. conv (columna_cruda h c) (crudo (h_columnas h) f c))
                                 (filter (\<lambda>c. c \<in> set usecols) (h_columnas h)))
                          (h_filas h)\<rparr>
          else Inl (Exception
                 (''Usecols do not match columns, columns expected but not found: ''
                  @ py_repr_lista (filter (\<lambda>c. c \<notin> set (h_columnas h)) usecols))))"

text \<open>
  \<open>df[df[c].isnull()]\<close>: KeyError without the column (its text is the \<open>repr\<close> of the
  name), else the rows missing it.
\<close>

definition filtrar_nulos :: "dataframe \<Rightarrow> string \<Rightarrow> exc + dataframe" where
  "filtrar_nulos df c =
     (if c \<in> set (df_columnas df)
      then Inr (df\<lparr>df_filas := filter (\<lambda>f. valor (df_columnas df) f c = None) (df_filas df)\<rparr>)
      else Inl (Exception (py_repr c)))"

text \<open>\<open>df.drop(columns=cs)\<close>: KeyError when a name is no column.\<close>

definition drop_columns :: "dataframe \<Rightarrow> string list \<Rightarrow> exc + dataframe" where
  "drop_columns df cs =
     (if set cs \<subseteq> set (df_columnas df)
      then Inr \<lparr>df_columnas = filter (\<lambda>c. c \<notin> set cs) (df_columnas df),
                df_filas = map (proyectar (df_columnas df) (\<lambda>c. c \<notin> set cs)) (df_filas df)\<rparr>
      else Inl (Exception
             ([CHR 0x22]
              @ py_repr_lista (filter (\<lambda>c. c \<notin> set (df_columnas df)) cs)
              @ '' not found in axis'' @ [CHR 0x22])))"

text \<open>\<open>df[c].tolist()\<close>: the cells of the column, one per row, missing ones included.\<close>

definition columna_tolist :: "dataframe \<Rightarrow> string \<Rightarrow> exc + celda list" where
  "columna_tolist df c =
     (if c \<in> set (df_columnas df)
      then Inr (map (\<lambda>f. valor (df_columnas df) f c) (df_filas df))
      else Inl (Exception (py_repr c)))"

text \<open>
  Lines 12 to 18. \<open>archivo\<close> is what the file dialog returned.
\<close>

definition obtener_comunicaciones ::
  "conversion \<Rightarrow> (string \<rightharpoonup> hoja list) \<Rightarrow> string \<Rightarrow> exc + celda list" where
  "obtener_comunicaciones conv archivos archivo =
     (case read_excel conv archivos archivo [col_ccoo, col_organismo] of
        Inl e \<Rightarrow> Inl e
      | Inr df \<Rightarrow>
          (case filtrar_nulos df col_organismo of
             Inl e \<Rightarrow> Inl e
           | Inr df1 \<Rightarrow>
               (case drop_columns df1 [col_organismo] of
                  Inl e \<Rightarrow> Inl e
                | Inr df2 \<Rightarrow> columna_tolist df2 col_ccoo)))"

section \<open>The Portal Downloader (\<open>buscar_comunicaciones\<close>)\<close>

text \<open>
  What the program does to the browser, the disk and standard output, one constructor per
  call of the source. A locator is a CSS selector, alone or narrowed by \<open>.nth(i)\<close> or
  \<open>.first\<close>; building a locator does nothing by itself. Sleeps are in milliseconds.
  \<open>ExpectDownloadClick t l\<close> is the whole of lines 58 to 60: the click on \<open>l\<close>
  inside \<open>expect_download(timeout=t)\<close> and the wait for the download it starts; it
  raises when the click fails or no download arrives in time. Entering and leaving
  \<open>sync_playwright()\<close> is not recorded.
\<close>

datatype localizador = Locator string | Nth string nat | First string

record descarga =
  suggested_filename :: string
  contenido :: string

datatype accion =
    Launch bool
  | NewContext bool
  | NewPage
  | SetDefaultTimeout nat
  | Goto string
  | WaitForLoadState string
  | WaitFor localizador
  | Fill localizador celda
  | Click localizador
  | Sleep nat
  | ExpectDownloadClick nat localizador
  | SaveAs descarga string
  | Print string

text \<open>
  An event is an action with how it ended: \<open>None\<close> for a normal return,
  \<open>Some e\<close> when it raised \<open>e\<close>. The world outside the program (browser, portal,
  disk, console) answers each action given everything that happened before, and hands
  over the download object when \<open>expect_download\<close> completes.
\<close>

type_synonym evento = "accion \<times> exc option"

record mundo =
  interactua :: "evento list \<Rightarrow> accion \<Rightarrow> exc option"
  transferencia :: "evento list \<Rightarrow> descarga"

definition hacer :: "mundo \<Rightarrow> accion \<Rightarrow> evento list \<Rightarrow> evento list \<times> exc option" where
  "hacer w a h = (let r = interactua w h a in (h @ [(a, r)], r))"

text \<open>Straight-line code: the actions in order, stopping at the first that raises.\<close>

fun secuencia :: "mundo \<Rightarrow> accion list \<Rightarrow> evento list \<Rightarrow> evento list \<times> exc option" where
  "secuencia w [] h = (h, None)"
| "secuencia w (a # as) h =
     (case hacer w a h of
        (h', None) \<Rightarrow> secuencia w as h'
      | (h', Some e) \<Rightarrow> (h', Some e))"

text \<open>\<open>posixpath.join\<close>: an absolute component restarts the path.\<close>

definition unir :: "string \<Rightarrow> string \<Rightarrow> string" where
  "unir path b =
     (if b \<noteq> [] \<and> hd b = CHR ''/'' then b
      else if path = [] \<or> last path = CHR ''/'' then path @ b
      else path @ ''/'' @ b)"

definition os_path_join :: "string \<Rightarrow> string list \<Rightarrow> string" where
  "os_path_join a p = foldl unir a p"

definition url_portal :: string where
  "url_portal = ''http://euc.gcba.gob.ar/ccoo-web/''"

definition env_user :: string where
  "env_user = ''SADE_USER_CECILIA''"

definition env_password :: string where
  "env_password = ''SADE_PASSWORD_CECILIA''"

text \<open>Lines 23 to 35: browser, context, page, timeout, navigation, the login boxes.\<close>

definition pasos_inicio :: "accion list" where
  "pasos_inicio =
     [Launch False, NewContext True, NewPage, SetDefaultTimeout 30000,
      Goto url_portal, WaitForLoadState ''networkidle'',
      WaitFor (First ''.form-control.z-textbox'')]"

text \<open>Lines 42 to 46: the login.\<close>

definition pasos_login :: "string \<Rightarrow> string \<Rightarrow> accion list" where
  "pasos_login user password =
     [Fill (Nth ''.form-control.z-textbox'' 0) (Some (Cadena user)),
      Fill (Nth ''.form-control.z-textbox'' 1) (Some (Cadena password)),
      Click (Locator ''.btn.btn-default.z-button''),
      WaitForLoadState ''networkidle'', Sleep 2000]"

text \<open>Lines 49 to 55: search one identifier and open the result.\<close>

definition pasos_busqueda :: "celda \<Rightarrow> accion list" where
  "pasos_busqueda comunicacion =
     [Fill (Nth ''.z-textbox'' 0) comunicacion,
      Click (Nth ''.z-button'' 2),
      WaitForLoadState ''networkidle'', Sleep 1000,
      Click (Nth ''.boton-sin-caja.z-button'' 29),
      WaitForLoadState ''networkidle'', Sleep 1000]"

text \<open>Lines 72 to 74: back to the list of communications.\<close>

definition pasos_volver :: "accion list" where
  "pasos_volver = [Click (Nth ''.btn.z-button'' 0), Sleep 1000, WaitForLoadState ''networkidle'']"

definition clic_descarga :: accion where
  "clic_descarga = ExpectDownloadClick 30000 (Nth ''.z-icon-download'' 0)"

definition ruta_guardado :: "string \<Rightarrow> descarga \<Rightarrow> string" where
  "ruta_guardado home download = os_path_join home [''Downloads'', suggested_filename download]"

text \<open>
  The body of the \<open>try\<close>, lines 58 to 67. \<open>home\<close> is \<open>os.path.expanduser("~")\<close>.
\<close>

definition intento_descarga :: "mundo \<Rightarrow> string \<Rightarrow> evento list \<Rightarrow> evento list \<times> exc option" where
  "intento_descarga w home h =
     (case hacer w clic_descarga h of
        (h1, Some e) \<Rightarrow> (h1, Some e)
      | (h1, None) \<Rightarrow>
          (let download = transferencia w h1;
               save_path = ruta_guardado home download
           in secuencia w [SaveAs download save_path, Sleep 500] h1))"

definition prefijo_error :: string where
  "prefijo_error = ''Error descargando archivo de comunicaci'' @ [CHR 0xC3, CHR 0xB3] @ ''n ''"

text \<open>
  The loop of lines 48 to 74. An \<open>Exception\<close> of the \<open>try\<close> is printed and the loop
  goes on with the next identifier (\<open>continue\<close>); any other exception, and any
  exception outside the \<open>try\<close>, leaves the function.
\<close>

fun bucle :: "mundo \<Rightarrow> string \<Rightarrow> celda list \<Rightarrow> evento list \<Rightarrow> evento list \<times> exc option" where
  "bucle w home [] h = (h, None)"
| "bucle w home (comunicacion # resto) h =
     (case secuencia w (pasos_busqueda comunicacion) h of
        (h1, Some e) \<Rightarrow> (h1, Some e)
      | (h1, None) \<Rightarrow>
          (case intento_descarga w home h1 of
             (h2, Some (Exception m)) \<Rightarrow>
               (case hacer w (Print (prefijo_error @ m)) h2 of
                  (h3, Some e) \<Rightarrow> (h3, Some e)
                | (h3, None) \<Rightarrow> bucle w home resto h3)
           | (h2, Some Interrupcion) \<Rightarrow> (h2, Some Interrupcion)
           | (h2, None) \<Rightarrow>
               (case secuencia w pasos_volver h2 of
                  (h3, Some e) \<Rightarrow> (h3, Some e)
                | (h3, None) \<Rightarrow> bucle w home resto h3)))"

text \<open>
  Lines 21 to 74. \<open>entorno\<close> is the process environment after \<open>load_dotenv()\<close>. The
  result is the events of the run and the exception that ended it, if any.
\<close>

definition buscar_comunicaciones ::
  "mundo \<Rightarrow> (string \<rightharpoonup> string) \<Rightarrow> string \<Rightarrow> celda list \<Rightarrow> evento list \<times> exc option" where
  "buscar_comunicaciones w entorno home comunicaciones =
     (case secuencia w pasos_inicio [] of
        (h, Some e) \<Rightarrow> (h, Some e)
      | (h, None) \<Rightarrow>
          (case (entorno env_user, entorno env_password) of
             (Some user, Some password) \<Rightarrow>
               (case secuencia w (pasos_login user password) h of
                  (h1, Some e) \<Rightarrow> (h1, Some e)
                | (h1, None) \<Rightarrow> bucle w home comunicaciones h1)
           | _ \<Rightarrow> (h, Some (Exception ''Environment variables for SADE credentials not found''))))"

text \<open>Lines 77 to 79.\<close>

definition main ::
  "conversion \<Rightarrow> (string \<rightharpoonup> hoja list) \<Rightarrow> string \<Rightarrow> mundo \<Rightarrow> (string \<rightharpoonup> string)
     \<Rightarrow> string \<Rightarrow> evento list \<times> exc option" where
  "main conv archivos archivo w entorno home =
     (case obtener_comunicaciones conv archivos archivo of
        Inl e \<Rightarrow> ([], Some e)
      | Inr comunicaciones \<Rightarrow> buscar_comunicaciones w entorno home comunicaciones)"

section \<open>Reading a run: observations on the events\<close>

text \<open>
  The identifier in course: the one of the latest search fill (line 49). The login fills
  use another selector and do not count.
\<close>

definition paso_actual :: "celda option \<Rightarrow> evento \<Rightarrow> celda option" where
  "paso_actual cur ev =
     (case fst ev of
        Fill l c \<Rightarrow> if l = Nth ''.z-textbox'' 0 then Some c else cur
      | _ \<Rightarrow> cur)"

definition en_curso :: "evento list \<Rightarrow> celda option" where
  "en_curso h = foldl paso_actual None h"

text \<open>The identifiers in course at the events that satisfy \<open>P\<close>, in order of occurrence.\<close>

fun ids_desde :: "(evento \<Rightarrow> bool) \<Rightarrow> celda option \<Rightarrow> evento list \<Rightarrow> celda list" where
  "ids_desde P cur [] = []"
| "ids_desde P cur (ev # evs) =
     (case paso_actual cur ev of
        Some c \<Rightarrow> (if P ev then [c] else []) @ ids_desde P (paso_actual cur ev) evs
      | None \<Rightarrow> ids_desde P None evs)"

definition es_busqueda :: "evento \<Rightarrow> bool" where
  "es_busqueda ev = (case fst ev of Fill l c \<Rightarrow> l = Nth ''.z-textbox'' 0 | _ \<Rightarrow> False)"

definition es_apertura :: "evento \<Rightarrow> bool" where
  "es_apertura ev = (fst ev = Click (Nth ''.boton-sin-caja.z-button'' 29))"

definition es_clic_descarga :: "evento \<Rightarrow> bool" where
  "es_clic_descarga ev = (case fst ev of ExpectDownloadClick t l \<Rightarrow> True | _ \<Rightarrow> False)"

definition es_guardado :: "evento \<Rightarrow> bool" where
  "es_guardado ev = (case fst ev of SaveAs d p \<Rightarrow> snd ev = None | _ \<Rightarrow> False)"

definition buscados :: "evento list \<Rightarrow> celda list" where
  "buscados h = ids_desde es_busqueda None h"

definition abiertos :: "evento list \<Rightarrow> celda list" where
  "abiertos h = ids_desde es_apertura None h"

definition descargas_intentadas :: "evento list \<Rightarrow> celda list" where
  "descargas_intentadas h = ids_desde es_clic_descarga None h"


text \<open>The messages printed, in order.\<close>

definition impresos :: "evento list \<Rightarrow> string list" where
  "impresos h = concat (map (\<lambda>ev. case fst ev of Print m \<Rightarrow> [m] | _ \<Rightarrow> []) h)"

text \<open>
  The files on disk after the events: \<open>save_as\<close> that returns has written the
  download's content at its path, over whatever was there.
\<close>

definition escribir :: "(string \<rightharpoonup> string) \<Rightarrow> evento \<Rightarrow> (string \<rightharpoonup> string)" where
  "escribir fs ev =
     (case ev of
        (SaveAs d p, None) \<Rightarrow> fs(p \<mapsto> contenido d)
      | _ \<Rightarrow> fs)"

definition disco_tras :: "evento list \<Rightarrow> (string \<rightharpoonup> string)" where
  "disco_tras h = foldl escribir Map.empty h"

definition ruta_de :: "evento \<Rightarrow> string option" where
  "ruta_de ev = (case fst ev of SaveAs d p \<Rightarrow> Some p | _ \<Rightarrow> None)"

text \<open>Whether \<open>t\<close> occurs in \<open>s\<close> as a contiguous piece.\<close>

fun contiene :: "string \<Rightarrow> string \<Rightarrow> bool" where
  "contiene [] t = (t = [])"
| "contiene (x # xs) t = (take (length t) (x # xs) = t \<or> contiene xs t)"

section \<open>Worlds used in the examples\<close>

text \<open>
  Every action returns; each download is named \<open>documento.pdf\<close> and holds the text
  of the identifier in course.
\<close>

definition descarga_de :: "evento list \<Rightarrow> descarga" where
  "descarga_de h =
     \<lparr>suggested_filename = ''documento.pdf'',
      contenido = (case en_curso h of Some (Some (Cadena c)) \<Rightarrow> c | _ \<Rightarrow> [])\<rparr>"

definition mundo_ok :: mundo where
  "mundo_ok = \<lparr>interactua = (\<lambda>h a. None), transferencia = descarga_de\<rparr>"

text \<open>
  As before, but the click that should start the download raises \<open>Exception msg\<close>
  while the identifier \<open>malo\<close> is in course.
\<close>

definition mundo_falla :: "celda \<Rightarrow> string \<Rightarrow> mundo" where
  "mundo_falla malo msg =
     \<lparr>interactua = (\<lambda>h a. if a = clic_descarga \<and> en_curso h = Some malo
                           then Some (Exception msg) else None),
      transferencia = descarga_de\<rparr>"

text \<open>As \<open>mundo_ok\<close>, but the search button cannot be clicked.\<close>

definition mundo_sin_boton :: mundo where
  "mundo_sin_boton =
     \<lparr>interactua = (\<lambda>h a. if a = Click (Nth ''.z-button'' 2)
                           then Some (Exception ''Timeout 30000ms exceeded.'') else None),
      transferencia = descarga_de\<rparr>"

definition entorno_ok :: "string \<rightharpoonup> string" where
  "entorno_ok = [env_user \<mapsto> ''cecilia'', env_password \<mapsto> ''secreto'']"

definition msg_timeout :: string where
  "msg_timeout = ''Timeout 30000ms exceeded while waiting for event download''"

section \<open>The conversion and the sheets used in the examples\<close>

text \<open>
  An instance of pandas' default conversion for sheets of empty cells, texts and whole
  numbers. A cell is missing when it is empty or its text is one of the default NA texts
  (the table of pandas 2). A column whose present cells are all whole numbers, or texts
  made of decimal digits only, becomes a column of \<open>int\<close>, and of \<open>float\<close> when a
  cell of it is missing; any other column keeps its present cells as they are. It knows
  no other spelling of a number (a sign, a decimal point, an exponent), no boolean text
  and no bound on the size of a number: those are outside the examples.
\<close>

definition na_por_defecto :: "string list" where
  "na_por_defecto =
     ['''', ''#N/A'', ''#N/A N/A'', ''#NA'', ''-1.#IND'', ''-1.#QNAN'', ''-NaN'', ''-nan'',
      ''1.#IND'', ''1.#QNAN'', ''<NA>'', ''N/A'', ''NA'', ''NULL'', ''NaN'', ''None'', ''n/a'',
      ''nan'', ''null'']"

definition es_na :: "celda_hoja \<Rightarrow> bool" where
  "es_na c = (case c of Vacia \<Rightarrow> True | Texto t \<Rightarrow> t \<in> set na_por_defecto | Numero n \<Rightarrow> False)"

definition digito :: "char \<Rightarrow> int option" where
  "digito c = map_of (zip ''0123456789'' [0, 1, 2, 3, 4, 5, 6, 7, 8, 9]) c"

fun entero_desde :: "int \<Rightarrow> string \<Rightarrow> int option" where
  "entero_desde n [] = Some n"
| "entero_desde n (c # cs) =
     (case digito c of None \<Rightarrow> None | Some d \<Rightarrow> entero_desde (10 * n + d) cs)"

definition numero_de :: "celda_hoja \<Rightarrow> int option" where
  "numero_de c =
     (case c of
        Vacia \<Rightarrow> None
      | Texto t \<Rightarrow> if t = [] then None else entero_desde 0 t
      | Numero n \<Rightarrow> Some n)"

definition es_numerica :: "celda_hoja list \<Rightarrow> bool" where
  "es_numerica col = list_all (\<lambda>x. es_na x \<or> numero_de x \<noteq> None) col"

definition conversion_pandas :: conversion where
  "conversion_pandas col c =
     (if es_na c then None
      else if es_numerica col
      then (case numero_de c of
              None \<Rightarrow> None
            | Some n \<Rightarrow> Some (if list_ex es_na col then Flotante (of_int n) else Entero n))
      else (case c of
              Vacia \<Rightarrow> None
            | Texto t \<Rightarrow> Some (Cadena t)
            | Numero n \<Rightarrow> Some (Entero n)))"

text \<open>The workbook of the example: one sheet, two columns, three rows.\<close>

definition hoja_ejemplo :: hoja where
  "hoja_ejemplo =
     \<lparr>h_columnas = [col_ccoo, col_organismo],
      h_filas = [[Texto ''100'', Vacia], [Texto ''200'', Texto ''X''], [Texto ''300'', Vacia]]\<rparr>"

definition archivos_ejemplo :: "string \<rightharpoonup> hoja list" where
  "archivos_ejemplo = [''casos.xlsx'' \<mapsto> [hoja_ejemplo]]"

text \<open>The same identifiers with the second one left empty.\<close>

definition hoja_con_blanco :: hoja where
  "hoja_con_blanco =
     \<lparr>h_columnas = [col_ccoo, col_organismo],
      h_filas = [[Texto ''100'', Vacia], [Vacia, Vacia], [Texto ''300'', Vacia]]\<rparr>"

text \<open>Identifiers that are no numbers, and an organism cell holding the text NA.\<close>

definition hoja_con_na :: hoja where
  "hoja_con_na =
     \<lparr>h_columnas = [col_ccoo, col_organismo],
      h_filas = [[Texto ''A1'', Texto ''NA''], [Texto ''A2'', Texto ''X''], [Texto ''A3'', Vacia]]\<rparr>"

text \<open>A sheet without the organism column.\<close>

definition hoja_sin_organismo :: hoja where
  "hoja_sin_organismo =
     \<lparr>h_columnas = [col_ccoo, ''FECHA''],
      h_filas = [[Texto ''100'', Vacia]]\<rparr>"

section \<open>The Input Selector: what it returns\<close>

lemma zip_proyectar:
  "zip (filter P cols) (proyectar cols P f) = filter (\<lambda>(c, v). P c) (zip cols f)"
proof (induction cols arbitrary: f)
  case Nil
  then show ?case by (simp add: proyectar_def)
next
  case (Cons c cols)
  then show ?case by (cases f) (auto simp: proyectar_def)
qed

lemma map_of_filter_clave:
  "P c \<Longrightarrow> map_of (filter (\<lambda>(k, v). P k) xs) c = map_of xs c"
  by (induction xs) auto

lemma valor_proyectar:
  "P c \<Longrightarrow> valor (filter P cols) (proyectar cols P f) c = valor cols f c"
  by (simp add: valor_def zip_proyectar map_of_filter_clave)

lemma valor_map:
  "c \<in> set cols \<Longrightarrow> valor cols (map g cols) c = g c"
  by (simp add: valor_def map_of_zip_map)

lemma columnas_distintas: "col_ccoo \<noteq> col_organismo"
  by (simp add: col_ccoo_def col_organismo_def)

text \<open>
  Whatever the conversion: when the first sheet of the chosen workbook has both columns,
  the selector returns the converted cells of the identifier column of exactly the rows
  whose converted \<open>ORGANISMO\<close> cell is missing, in row order, one per such row, so
  duplicates and missing identifiers stay.
\<close>

lemma obtener_comunicaciones_seleccion:
  assumes "archivos archivo = Some (h # resto)"
    and "col_ccoo \<in> set (h_columnas h)"
    and "col_organismo \<in> set (h_columnas h)"
  shows "obtener_comunicaciones conv archivos archivo =
           Inr (map (\<lambda>f. conv (columna_cruda h col_ccoo) (crudo (h_columnas h) f col_ccoo))
                  (filter (\<lambda>f. conv (columna_cruda h col_organismo)
                                  (crudo (h_columnas h) f col_organismo) = None)
                     (h_filas h)))"
proof -
  define P where "P = (\<lambda>c. c \<in> set [col_ccoo, col_organismo])"
  define Q where "Q = (\<lambda>c. c \<notin> set [col_organismo])"
  define cols where "cols = filter P (h_columnas h)"
  define g where "g = (\<lambda>f c. conv (columna_cruda h c) (crudo (h_columnas h) f c))"
  have P: "P col_ccoo" "P col_organismo" and Q: "Q col_ccoo"
    by (simp_all add: P_def Q_def columnas_distintas)
  have dentro: "col_ccoo \<in> set cols" "col_organismo \<in> set cols"
    using assms(2,3) P by (simp_all add: cols_def)
  have novacia: "h_columnas h \<noteq> []"
    using assms(2) by auto
  have leer: "read_excel conv archivos archivo [col_ccoo, col_organismo] =
      Inr \<lparr>df_columnas = cols, df_filas = map (\<lambda>f. map (g f) cols) (h_filas h)\<rparr>"
    using assms novacia by (simp add: read_excel_def P_def cols_def g_def)
  have nulos: "filtrar_nulos
      \<lparr>df_columnas = cols, df_filas = map (\<lambda>f. map (g f) cols) (h_filas h)\<rparr> col_organismo =
      Inr \<lparr>df_columnas = cols,
           df_filas = map (\<lambda>f. map (g f) cols)
             (filter (\<lambda>f. g f col_organismo = None) (h_filas h))\<rparr>"
    using dentro by (simp add: filtrar_nulos_def filter_map o_def valor_map)
  have quitar: "drop_columns \<lparr>df_columnas = cols, df_filas = fs\<rparr> [col_organismo] =
      Inr \<lparr>df_columnas = filter Q cols, df_filas = map (proyectar cols Q) fs\<rparr>" for fs
    using dentro by (simp add: drop_columns_def Q_def)
  have lista: "columna_tolist
      \<lparr>df_columnas = filter Q cols,
       df_filas = map (proyectar cols Q) (map (\<lambda>f. map (g f) cols) fs)\<rparr> col_ccoo =
      Inr (map (\<lambda>f. g f col_ccoo) fs)" for fs
    using Q dentro by (simp add: columna_tolist_def o_def valor_proyectar valor_map)
  have "obtener_comunicaciones conv archivos archivo =
      Inr (map (\<lambda>f. g f col_ccoo) (filter (\<lambda>f. g f col_organismo = None) (h_filas h)))"
    unfolding obtener_comunicaciones_def leer sum.case nulos quitar lista ..
  then show ?thesis by (simp only: g_def)
qed

lemmas selector_defs = obtener_comunicaciones_def read_excel_def filtrar_nulos_def
  drop_columns_def columna_tolist_def valor_def proyectar_def crudo_def columna_cruda_def
  col_ccoo_def col_organismo_def

lemmas conversion_defs = conversion_pandas_def es_numerica_def numero_de_def es_na_def
  na_por_defecto_def digito_def

text \<open>
  Claim C1 on its own example. For the sheet with columns \<open>CCOO N\<close> and
  \<open>ORGANISMO\<close> and the rows (100, empty), (200, X), (300, empty), all cells texts, the
  selector returns the integers 100 and 300: the default conversion of line 15 turns
  the identifier column into numbers, where the claim and the annotation
  \<open>list[str]\<close> of line 12 have the strings.
\<close>

theorem obtener_comunicaciones_devuelve_enteros:
  "obtener_comunicaciones conversion_pandas archivos_ejemplo ''casos.xlsx'' =
     Inr [Some (Entero 100), Some (Entero 300)]"
  by (simp add: selector_defs conversion_defs archivos_ejemplo_def hoja_ejemplo_def)

text \<open>With an identifier left empty the other identifiers come back as floats.\<close>

lemma obtener_comunicaciones_con_blanco:
  "obtener_comunicaciones conversion_pandas [''casos.xlsx'' \<mapsto> [hoja_con_blanco]] ''casos.xlsx'' =
     Inr [Some (Flotante 100), None, Some (Flotante 300)]"
  by (simp add: selector_defs conversion_defs hoja_con_blanco_def)

text \<open>
  An organism cell holding the text NA counts as missing: its row is selected. The
  identifiers, being no numbers, stay strings.
\<close>

lemma obtener_comunicaciones_con_na:
  "obtener_comunicaciones conversion_pandas [''casos.xlsx'' \<mapsto> [hoja_con_na]] ''casos.xlsx'' =
     Inr [Some (Cadena ''A1''), Some (Cadena ''A3'')]"
  by (simp add: selector_defs conversion_defs hoja_con_na_def)

text \<open>
  Claim C7. When the first sheet of the chosen workbook has no \<open>ORGANISMO\<close>
  column, \<open>main\<close> ends with the selector's exception and no event at all: the browser
  is never launched. The exception is the ValueError of \<open>read_excel\<close>, or, for a
  sheet with no cell, the KeyError of line 16.
\<close>

theorem main_sin_organismo:
  assumes "archivos archivo = Some (h # resto)"
    and "col_organismo \<notin> set (h_columnas h)"
  shows "main conv archivos archivo w entorno home =
           ([], Some (Exception
                  (if h_columnas h = [] then py_repr col_organismo
                   else ''Usecols do not match columns, columns expected but not found: ''
                        @ py_repr_lista (filter (\<lambda>c. c \<notin> set (h_columnas h))
                                           [col_ccoo, col_organismo]))))"
  using assms
  by (simp add: main_def obtener_comunicaciones_def read_excel_def filtrar_nulos_def)

theorem main_sin_organismo_ejemplo:
  "[''casos.xlsx'' \<mapsto> [hoja_sin_organismo]] ''casos.xlsx'' = Some (hoja_sin_organismo # [])
   \<and> col_organismo \<notin> set (h_columnas hoja_sin_organismo)
   \<and> main conversion_pandas [''casos.xlsx'' \<mapsto> [hoja_sin_organismo]] ''casos.xlsx'' mundo_ok
         entorno_ok ''/home/u''
       = ([], Some (Exception
            (''Usecols do not match columns, columns expected but not found: ''
             @ ''['' @ [CHR 0x27] @ ''ORGANISMO'' @ [CHR 0x27] @ '']'')))"
  using main_sin_organismo [of "[''casos.xlsx'' \<mapsto> [hoja_sin_organismo]]" "''casos.xlsx''"
      hoja_sin_organismo "[]" conversion_pandas mundo_ok entorno_ok "''/home/u''"]
  by (simp add: hoja_sin_organismo_def col_ccoo_def col_organismo_def py_repr_lista_def
      py_repr_def)

text \<open>A first sheet with no cell: the failure is the KeyError of line 16.\<close>

lemma main_hoja_vacia:
  "main conv [''casos.xlsx'' \<mapsto> [\<lparr>h_columnas = [], h_filas = []\<rparr>]] ''casos.xlsx'' w entorno home =
     ([], Some (Exception ([CHR 0x27] @ ''ORGANISMO'' @ [CHR 0x27])))"
  by (simp add: main_def obtener_comunicaciones_def read_excel_def filtrar_nulos_def
      py_repr_def col_organismo_def)


section \<open>The Portal Downloader: properties of a run\<close>

lemma hacer_eq: "hacer w a h = (h @ [(a, interactua w h a)], interactua w h a)"
  by (simp add: hacer_def Let_def)

lemma secuencia_append:
  "secuencia w (as @ bs) h =
     (case secuencia w as h of
        (h', None) \<Rightarrow> secuencia w bs h'
      | (h', Some e) \<Rightarrow> (h', Some e))"
  by (induction as arbitrary: h) (auto simp: hacer_eq split: option.splits)


lemma secuencia_prefijo:
  "prefix (map fst (fst (secuencia w as h))) (map fst h @ as)"
proof (induction as arbitrary: h)
  case Nil
  then show ?case by simp
next
  case (Cons a as)
  show ?case
  proof (cases "interactua w h a")
    case None
    then show ?thesis using Cons [of "h @ [(a, None)]"] by (simp add: hacer_eq)
  next
    case (Some e)
    then show ?thesis by (simp add: hacer_eq)
  qed
qed

lemma secuencia_completa:
  "snd (secuencia w as h) = None \<Longrightarrow> map fst (fst (secuencia w as h)) = map fst h @ as"
proof (induction as arbitrary: h)
  case Nil
  then show ?case by simp
next
  case (Cons a as)
  show ?case
  proof (cases "interactua w h a")
    case None
    then show ?thesis using Cons.IH [of "h @ [(a, None)]"] Cons.prems by (simp add: hacer_eq)
  next
    case (Some e)
    then show ?thesis using Cons.prems by (simp add: hacer_eq)
  qed
qed

lemma secuencia_extiende: "prefix h (fst (secuencia w as h))"
proof (induction as arbitrary: h)
  case Nil
  then show ?case by simp
next
  case (Cons a as)
  show ?case
  proof (cases "interactua w h a")
    case None
    have "prefix h (h @ [(a, None)])" by simp
    also have "prefix (h @ [(a, None)]) (fst (secuencia w as (h @ [(a, None)])))"
      by (rule Cons.IH)
    finally show ?thesis using None by (simp add: hacer_eq)
  next
    case (Some e)
    then show ?thesis by (simp add: hacer_eq)
  qed
qed

text \<open>
  Claim C2, as the code has it. With a credential unset the run always ends with an
  exception, and its events are opening steps only (launch, context, page, timeout,
  navigation to the portal, the two waits): no credential is filled, no login is
  submitted, no identifier is searched. When the opening steps all return, the
  exception is the ValueError of line 40, raised after them.
\<close>

theorem sin_credenciales_aborta_tras_inicio:
  assumes "entorno env_user = None \<or> entorno env_password = None"
  shows "snd (buscar_comunicaciones w entorno home cs) \<noteq> None
       \<and> prefix (map fst (fst (buscar_comunicaciones w entorno home cs))) pasos_inicio
       \<and> (snd (secuencia w pasos_inicio []) = None \<longrightarrow>
            buscar_comunicaciones w entorno home cs =
              (fst (secuencia w pasos_inicio []),
               Some (Exception ''Environment variables for SADE credentials not found'')))"
proof -
  obtain h r where sec: "secuencia w pasos_inicio [] = (h, r)"
    by (cases "secuencia w pasos_inicio []")
  have pre: "prefix (map fst h) pasos_inicio"
    using secuencia_prefijo [of w pasos_inicio "[]"] by (simp add: sec)
  show ?thesis
  proof (cases r)
    case None
    then have "buscar_comunicaciones w entorno home cs =
        (h, Some (Exception ''Environment variables for SADE credentials not found''))"
      using assms by (auto simp: buscar_comunicaciones_def sec split: option.splits)
    then show ?thesis using pre by (simp add: sec)
  next
    case (Some e)
    then have "buscar_comunicaciones w entorno home cs = (h, Some e)"
      by (simp add: buscar_comunicaciones_def sec)
    then show ?thesis using pre Some by (simp add: sec)
  qed
qed

text \<open>An empty environment in a world where every action returns.\<close>

theorem sin_credenciales_ejemplo:
  "(Map.empty env_user = None \<or> Map.empty env_password = None)
   \<and> buscar_comunicaciones mundo_ok Map.empty ''/home/u'' [Some (Cadena ''A1'')] =
       ([(Launch False, None), (NewContext True, None), (NewPage, None),
         (SetDefaultTimeout 30000, None), (Goto url_portal, None),
         (WaitForLoadState ''networkidle'', None),
         (WaitFor (First ''.form-control.z-textbox''), None)],
        Some (Exception ''Environment variables for SADE credentials not found''))"
  using sin_credenciales_aborta_tras_inicio [of Map.empty mundo_ok "''/home/u''" "[Some (Cadena ''A1'')]"]
  by (simp add: pasos_inicio_def hacer_eq mundo_ok_def)

text \<open>
  Claim C2 as stated fails: with no credential set, the navigation to the portal
  (line 30) has already happened when the ValueError is raised.
\<close>

theorem navega_antes_de_comprobar_credenciales:
  "buscar_comunicaciones mundo_ok Map.empty ''/home/u'' [Some (Cadena ''A1'')] =
     ([(Launch False, None), (NewContext True, None), (NewPage, None),
       (SetDefaultTimeout 30000, None),
       (Goto ''http://euc.gcba.gob.ar/ccoo-web/'', None),
       (WaitForLoadState ''networkidle'', None),
       (WaitFor (First ''.form-control.z-textbox''), None)],
      Some (Exception ''Environment variables for SADE credentials not found''))"
  by (simp add: buscar_comunicaciones_def pasos_inicio_def hacer_eq mundo_ok_def url_portal_def
      env_user_def env_password_def)

text \<open>
  Claim C9. With both credentials set and no identifier, the run is exactly the opening
  and login steps (lines 23 to 46), the loop adding nothing; when those steps all
  return, the run ends normally and its actions are those steps, navigation included.
\<close>

theorem lista_vacia_solo_autentica:
  assumes "entorno env_user = Some user" and "entorno env_password = Some password"
  shows "buscar_comunicaciones w entorno home [] =
           secuencia w (pasos_inicio @ pasos_login user password) []
       \<and> (snd (secuencia w (pasos_inicio @ pasos_login user password) []) = None \<longrightarrow>
            snd (buscar_comunicaciones w entorno home []) = None
          \<and> map fst (fst (buscar_comunicaciones w entorno home [])) =
              pasos_inicio @ pasos_login user password)"
proof -
  have eq: "buscar_comunicaciones w entorno home [] =
      secuencia w (pasos_inicio @ pasos_login user password) []"
    using assms
    by (auto simp: buscar_comunicaciones_def secuencia_append split: prod.splits option.splits)
  show ?thesis
    using secuencia_completa [of w "pasos_inicio @ pasos_login user password" "[]"]
    by (simp add: eq)
qed

text \<open>The empty list in a world where every action returns.\<close>

theorem lista_vacia_ejemplo:
  "entorno_ok env_user = Some ''cecilia'' \<and> entorno_ok env_password = Some ''secreto''
   \<and> buscar_comunicaciones mundo_ok entorno_ok ''/home/u'' [] =
       ([(Launch False, None), (NewContext True, None), (NewPage, None),
         (SetDefaultTimeout 30000, None), (Goto url_portal, None),
         (WaitForLoadState ''networkidle'', None),
         (WaitFor (First ''.form-control.z-textbox''), None),
         (Fill (Nth ''.form-control.z-textbox'' 0) (Some (Cadena ''cecilia'')), None),
         (Fill (Nth ''.form-control.z-textbox'' 1) (Some (Cadena ''secreto'')), None),
         (Click (Locator ''.btn.btn-default.z-button''), None),
         (WaitForLoadState ''networkidle'', None), (Sleep 2000, None)],
        None)"
  using lista_vacia_solo_autentica [of entorno_ok "''cecilia''" "''secreto''" mundo_ok "''/home/u''"]
  by (simp add: entorno_ok_def env_user_def env_password_def pasos_inicio_def pasos_login_def
      hacer_eq mundo_ok_def)

lemma ids_desde_append:
  "ids_desde P cur (xs @ ys) = ids_desde P cur xs @ ids_desde P (foldl paso_actual cur xs) ys"
  by (induction xs arbitrary: cur) (auto split: option.splits)

lemmas obs_defs = es_busqueda_def es_apertura_def es_clic_descarga_def es_guardado_def
  paso_actual_def

lemma busqueda_obs:
  assumes "secuencia w (pasos_busqueda c) h = (h1, r)"
  shows "\<exists>evs. h1 = h @ evs
     \<and> (\<forall>cur. ids_desde es_busqueda cur evs = [c]
            \<and> ids_desde es_clic_descarga cur evs = []
            \<and> ids_desde es_guardado cur evs = []
            \<and> prefix (ids_desde es_apertura cur evs) [c]
            \<and> (r = None \<longrightarrow> ids_desde es_apertura cur evs = [c])
            \<and> foldl paso_actual cur evs = Some c)"
  using assms
  by (auto simp: pasos_busqueda_def hacer_eq obs_defs split: option.splits)

lemma descarga_obs:
  assumes "intento_descarga w home h = (h1, r)"
  shows "\<exists>evs. h1 = h @ evs
     \<and> (\<forall>c. ids_desde es_busqueda (Some c) evs = []
            \<and> ids_desde es_clic_descarga (Some c) evs = [c]
            \<and> ids_desde es_apertura (Some c) evs = []
            \<and> foldl paso_actual (Some c) evs = Some c)"
  using assms
  by (auto simp: intento_descarga_def clic_descarga_def hacer_eq obs_defs Let_def
      split: option.splits)

lemma volver_obs:
  assumes "secuencia w pasos_volver h = (h1, r)"
  shows "\<exists>evs. h1 = h @ evs
     \<and> (\<forall>cur. ids_desde es_busqueda cur evs = []
            \<and> ids_desde es_clic_descarga cur evs = []
            \<and> ids_desde es_guardado cur evs = []
            \<and> ids_desde es_apertura cur evs = []
            \<and> foldl paso_actual cur evs = cur)"
  using assms
  by (auto simp: pasos_volver_def hacer_eq obs_defs split: option.splits)

lemma inicio_obs:
  assumes "secuencia w pasos_inicio [] = (h, r)"
  shows "ids_desde es_busqueda None h = [] \<and> ids_desde es_apertura None h = []
       \<and> ids_desde es_clic_descarga None h = [] \<and> ids_desde es_guardado None h = []
       \<and> foldl paso_actual None h = None"
  using assms
  by (auto simp: pasos_inicio_def hacer_eq obs_defs split: option.splits)

lemma login_obs:
  assumes "secuencia w (pasos_login user password) h = (h1, r)"
  shows "\<exists>evs. h1 = h @ evs
     \<and> (\<forall>cur. ids_desde es_busqueda cur evs = []
            \<and> ids_desde es_clic_descarga cur evs = []
            \<and> ids_desde es_guardado cur evs = []
            \<and> ids_desde es_apertura cur evs = []
            \<and> foldl paso_actual cur evs = cur)"
  using assms
  by (auto simp: pasos_login_def hacer_eq obs_defs split: option.splits)

lemma iteracion_obs:
  "\<exists>evs. (\<forall>cur. ids_desde es_busqueda cur evs = [c]
            \<and> prefix (ids_desde es_apertura cur evs) [c]
            \<and> prefix (ids_desde es_clic_descarga cur evs) (ids_desde es_apertura cur evs))
     \<and> ((\<exists>e. bucle w home (c # cs) h = (h @ evs, Some e))
        \<or> (bucle w home (c # cs) h = bucle w home cs (h @ evs)
           \<and> (\<forall>cur. ids_desde es_apertura cur evs = [c]
                  \<and> ids_desde es_clic_descarga cur evs = [c])))"
proof -
  obtain h1 r1 where s1: "secuencia w (pasos_busqueda c) h = (h1, r1)"
    by (cases "secuencia w (pasos_busqueda c) h")
  from busqueda_obs [OF s1] obtain e1 where h1: "h1 = h @ e1"
    and o1: "\<And>cur. ids_desde es_busqueda cur e1 = [c]"
      "\<And>cur. ids_desde es_clic_descarga cur e1 = []"
      "\<And>cur. prefix (ids_desde es_apertura cur e1) [c]"
      "\<And>cur. r1 = None \<Longrightarrow> ids_desde es_apertura cur e1 = [c]"
      "\<And>cur. foldl paso_actual cur e1 = Some c"
    by blast
  show ?thesis
  proof (cases r1)
    case (Some e)
    then have "bucle w home (c # cs) h = (h @ e1, Some e)"
      using s1 unfolding h1 by simp
    then show ?thesis using o1 by (intro exI [of _ e1]) simp
  next
    case None
    obtain h2 r2 where s2: "intento_descarga w home h1 = (h2, r2)"
      by (cases "intento_descarga w home h1")
    from descarga_obs [OF s2] obtain e2 where h2: "h2 = h1 @ e2"
      and o2: "ids_desde es_busqueda (Some c) e2 = []"
        "ids_desde es_clic_descarga (Some c) e2 = [c]"
        "ids_desde es_apertura (Some c) e2 = []"
        "foldl paso_actual (Some c) e2 = Some c"
      by blast
    have o12: "ids_desde es_busqueda cur (e1 @ e2) = [c]"
      "ids_desde es_apertura cur (e1 @ e2) = [c]"
      "ids_desde es_clic_descarga cur (e1 @ e2) = [c]"
      "foldl paso_actual cur (e1 @ e2) = Some c" for cur
      using o1 o2 None by (simp_all add: ids_desde_append)
    show ?thesis
    proof (cases r2)
      case None2: None
      obtain h3 r3 where s3: "secuencia w pasos_volver h2 = (h3, r3)"
        by (cases "secuencia w pasos_volver h2")
      from volver_obs [OF s3] obtain e3 where h3: "h3 = h2 @ e3"
        and o3: "\<And>cur. ids_desde es_busqueda cur e3 = []"
          "\<And>cur. ids_desde es_clic_descarga cur e3 = []"
          "\<And>cur. ids_desde es_apertura cur e3 = []"
        by blast
      have o123: "ids_desde es_busqueda cur ((e1 @ e2) @ e3) = [c]"
        "ids_desde es_apertura cur ((e1 @ e2) @ e3) = [c]"
        "ids_desde es_clic_descarga cur ((e1 @ e2) @ e3) = [c]" for cur
        using o12 o3 by (simp_all add: ids_desde_append del: append_assoc)
      have "bucle w home (c # cs) h =
          (case r3 of None \<Rightarrow> bucle w home cs (h @ (e1 @ e2) @ e3)
                    | Some e \<Rightarrow> (h @ (e1 @ e2) @ e3, Some e))"
        using None None2 s1 s2 s3 unfolding h1 h2 h3 by (simp split: option.splits)
      then show ?thesis
        using o123 by (intro exI [of _ "(e1 @ e2) @ e3"]) (cases r3; simp)
    next
      case (Some e)
      show ?thesis
      proof (cases e)
        case Interrupcion
        then have "bucle w home (c # cs) h = (h @ e1 @ e2, Some Interrupcion)"
          using None Some s1 s2 unfolding h1 h2 by simp
        then show ?thesis using o12 by (intro exI [of _ "e1 @ e2"]) simp
      next
        case (Exception m)
        define ev where "ev = (Print (prefijo_error @ m), interactua w h2 (Print (prefijo_error @ m)))"
        have oev: "ids_desde es_busqueda cur ((e1 @ e2) @ [ev]) = [c]"
          "ids_desde es_apertura cur ((e1 @ e2) @ [ev]) = [c]"
          "ids_desde es_clic_descarga cur ((e1 @ e2) @ [ev]) = [c]" for cur
          using o12 by (simp_all add: ids_desde_append ev_def obs_defs del: append_assoc)
        have "bucle w home (c # cs) h =
            (case snd ev of None \<Rightarrow> bucle w home cs (h @ (e1 @ e2) @ [ev])
                      | Some e \<Rightarrow> (h @ (e1 @ e2) @ [ev], Some e))"
          using None Some Exception s1 s2 unfolding h1 h2
          by (simp add: hacer_eq ev_def h1 h2 split: option.splits)
        then show ?thesis
          using oev by (intro exI [of _ "(e1 @ e2) @ [ev]"]) (cases "snd ev"; simp)
      qed
    qed
  qed
qed

lemma bucle_obs:
  "\<exists>evs. fst (bucle w home cs h) = h @ evs
     \<and> (\<forall>cur. prefix (ids_desde es_busqueda cur evs) cs
            \<and> prefix (ids_desde es_apertura cur evs) (ids_desde es_busqueda cur evs)
            \<and> prefix (ids_desde es_clic_descarga cur evs) (ids_desde es_apertura cur evs)
            \<and> (snd (bucle w home cs h) = None \<longrightarrow>
                 ids_desde es_busqueda cur evs = cs
               \<and> ids_desde es_apertura cur evs = cs
               \<and> ids_desde es_clic_descarga cur evs = cs))"
proof (induction cs arbitrary: h)
  case Nil
  then show ?case by simp
next
  case (Cons c cs)
  from iteracion_obs [of c w home cs h] obtain e1
    where o1: "\<And>cur. ids_desde es_busqueda cur e1 = [c]"
      "\<And>cur. prefix (ids_desde es_apertura cur e1) [c]"
      "\<And>cur. prefix (ids_desde es_clic_descarga cur e1) (ids_desde es_apertura cur e1)"
    and alt: "(\<exists>e. bucle w home (c # cs) h = (h @ e1, Some e))
        \<or> (bucle w home (c # cs) h = bucle w home cs (h @ e1)
           \<and> (\<forall>cur. ids_desde es_apertura cur e1 = [c]
                  \<and> ids_desde es_clic_descarga cur e1 = [c]))"
    by blast
  from alt show ?case
  proof
    assume "\<exists>e. bucle w home (c # cs) h = (h @ e1, Some e)"
    then obtain e where "bucle w home (c # cs) h = (h @ e1, Some e)" ..
    then show ?thesis using o1 by (intro exI [of _ e1]) simp
  next
    assume sigue: "bucle w home (c # cs) h = bucle w home cs (h @ e1)
           \<and> (\<forall>cur. ids_desde es_apertura cur e1 = [c]
                  \<and> ids_desde es_clic_descarga cur e1 = [c])"
    from Cons.IH [of "h @ e1"] obtain e2
      where f: "fst (bucle w home cs (h @ e1)) = (h @ e1) @ e2"
        and o2: "\<And>cur. prefix (ids_desde es_busqueda cur e2) cs"
          "\<And>cur. prefix (ids_desde es_apertura cur e2) (ids_desde es_busqueda cur e2)"
          "\<And>cur. prefix (ids_desde es_clic_descarga cur e2) (ids_desde es_apertura cur e2)"
          "\<And>cur. snd (bucle w home cs (h @ e1)) = None \<Longrightarrow>
                 ids_desde es_busqueda cur e2 = cs
               \<and> ids_desde es_apertura cur e2 = cs
               \<and> ids_desde es_clic_descarga cur e2 = cs"
      by blast
    show ?thesis
      using sigue f o1 o2 by (intro exI [of _ "e1 @ e2"]) (simp add: ids_desde_append)
  qed
qed

text \<open>
  Claim C8. In every run, whatever the world answers, the identifiers searched are an
  initial segment of the list, in list order; the identifiers opened are an initial segment
  of those searched, and the download attempts an initial segment of those opened: nothing
  is repeated, skipped or taken out of order. In a run that no exception ends, each of
  the three is the whole list: every identifier has exactly one search, one opening and
  one download attempt.
\<close>

theorem consumo_secuencial:
  "prefix (buscados (fst (buscar_comunicaciones w entorno home cs))) cs
   \<and> prefix (abiertos (fst (buscar_comunicaciones w entorno home cs)))
        (buscados (fst (buscar_comunicaciones w entorno home cs)))
   \<and> prefix (descargas_intentadas (fst (buscar_comunicaciones w entorno home cs)))
        (abiertos (fst (buscar_comunicaciones w entorno home cs)))
   \<and> (snd (buscar_comunicaciones w entorno home cs) = None \<longrightarrow>
        buscados (fst (buscar_comunicaciones w entorno home cs)) = cs
      \<and> abiertos (fst (buscar_comunicaciones w entorno home cs)) = cs
      \<and> descargas_intentadas (fst (buscar_comunicaciones w entorno home cs)) = cs)"
proof -
  let ?R = "buscar_comunicaciones w entorno home cs"
  obtain h r where s0: "secuencia w pasos_inicio [] = (h, r)"
    by (cases "secuencia w pasos_inicio []")
  note o0 = inicio_obs [OF s0]
  have corto: ?thesis if "?R = (h, Some e)" for e
    using that o0 by (simp add: buscados_def abiertos_def descargas_intentadas_def)
  show ?thesis
  proof (cases r)
    case (Some e)
    then have "?R = (h, Some e)" by (simp add: buscar_comunicaciones_def s0)
    then show ?thesis by (rule corto)
  next
    case None
    show ?thesis
    proof (cases "entorno env_user = None \<or> entorno env_password = None")
      case True
      then have "?R = (h, Some (Exception ''Environment variables for SADE credentials not found''))"
        using None by (auto simp: buscar_comunicaciones_def s0 split: option.splits)
      then show ?thesis by (rule corto)
    next
      case False
      then obtain user password where cred: "entorno env_user = Some user"
        "entorno env_password = Some password" by auto
      obtain h1 r1 where s1: "secuencia w (pasos_login user password) h = (h1, r1)"
        by (cases "secuencia w (pasos_login user password) h")
      from login_obs [OF s1] obtain e1 where h1: "h1 = h @ e1"
        and o1: "\<And>cur. ids_desde es_busqueda cur e1 = []"
          "\<And>cur. ids_desde es_clic_descarga cur e1 = []"
          "\<And>cur. ids_desde es_apertura cur e1 = []"
        by blast
      show ?thesis
      proof (cases r1)
        case (Some e)
        then have "?R = (h @ e1, Some e)"
          using None cred s1 unfolding h1 by (simp add: buscar_comunicaciones_def s0)
        then show ?thesis
          using o0 o1
          by (simp add: buscados_def abiertos_def descargas_intentadas_def ids_desde_append)
      next
        case None1: None
        have R: "?R = bucle w home cs (h @ e1)"
          using None None1 cred s1 unfolding h1 by (simp add: buscar_comunicaciones_def s0)
        from bucle_obs [of w home cs "h @ e1"] obtain e2
          where f: "fst (bucle w home cs (h @ e1)) = (h @ e1) @ e2"
            and o2: "\<And>cur. prefix (ids_desde es_busqueda cur e2) cs"
              "\<And>cur. prefix (ids_desde es_apertura cur e2) (ids_desde es_busqueda cur e2)"
              "\<And>cur. prefix (ids_desde es_clic_descarga cur e2) (ids_desde es_apertura cur e2)"
              "\<And>cur. snd (bucle w home cs (h @ e1)) = None \<Longrightarrow>
                     ids_desde es_busqueda cur e2 = cs
                   \<and> ids_desde es_apertura cur e2 = cs
                   \<and> ids_desde es_clic_descarga cur e2 = cs"
          by blast
        show ?thesis
          using o0 o1 o2
          by (simp add: R f buscados_def abiertos_def descargas_intentadas_def ids_desde_append
              del: append_assoc)
      qed
    qed
  qed
qed

lemmas run_defs = buscar_comunicaciones_def pasos_inicio_def pasos_login_def pasos_busqueda_def
  pasos_volver_def intento_descarga_def clic_descarga_def hacer_eq Let_def
  entorno_ok_def env_user_def env_password_def

lemmas mundo_defs = mundo_falla_def mundo_ok_def en_curso_def paso_actual_def descarga_de_def
  ruta_guardado_def os_path_join_def unir_def

lemma corrida_a2:
  "buscar_comunicaciones (mundo_falla (Some (Cadena ''A2'')) msg_timeout) entorno_ok ''/home/u''
     [Some (Cadena ''A1''), Some (Cadena ''A2''), Some (Cadena ''A3'')] =
   ([(Launch False, None), (NewContext True, None), (NewPage, None),
     (SetDefaultTimeout 30000, None), (Goto url_portal, None),
     (WaitForLoadState ''networkidle'', None),
     (WaitFor (First ''.form-control.z-textbox''), None),
     (Fill (Nth ''.form-control.z-textbox'' 0) (Some (Cadena ''cecilia'')), None),
     (Fill (Nth ''.form-control.z-textbox'' 1) (Some (Cadena ''secreto'')), None),
     (Click (Locator ''.btn.btn-default.z-button''), None),
     (WaitForLoadState ''networkidle'', None), (Sleep 2000, None),
     (Fill (Nth ''.z-textbox'' 0) (Some (Cadena ''A1'')), None),
     (Click (Nth ''.z-button'' 2), None),
     (WaitForLoadState ''networkidle'', None), (Sleep 1000, None),
     (Click (Nth ''.boton-sin-caja.z-button'' 29), None),
     (WaitForLoadState ''networkidle'', None), (Sleep 1000, None),
     (clic_descarga, None),
     (SaveAs \<lparr>suggested_filename = ''documento.pdf'', contenido = ''A1''\<rparr>
        ''/home/u/Downloads/documento.pdf'', None),
     (Sleep 500, None), (Click (Nth ''.btn.z-button'' 0), None),
     (Sleep 1000, None), (WaitForLoadState ''networkidle'', None),
     (Fill (Nth ''.z-textbox'' 0) (Some (Cadena ''A2'')), None),
     (Click (Nth ''.z-button'' 2), None),
     (WaitForLoadState ''networkidle'', None), (Sleep 1000, None),
     (Click (Nth ''.boton-sin-caja.z-button'' 29), None),
     (WaitForLoadState ''networkidle'', None), (Sleep 1000, None),
     (clic_descarga, Some (Exception msg_timeout)),
     (Print (prefijo_error @ msg_timeout), None),
     (Fill (Nth ''.z-textbox'' 0) (Some (Cadena ''A3'')), None),
     (Click (Nth ''.z-button'' 2), None),
     (WaitForLoadState ''networkidle'', None), (Sleep 1000, None),
     (Click (Nth ''.boton-sin-caja.z-button'' 29), None),
     (WaitForLoadState ''networkidle'', None), (Sleep 1000, None),
     (clic_descarga, None),
     (SaveAs \<lparr>suggested_filename = ''documento.pdf'', contenido = ''A3''\<rparr>
        ''/home/u/Downloads/documento.pdf'', None),
     (Sleep 500, None), (Click (Nth ''.btn.z-button'' 0), None),
     (Sleep 1000, None), (WaitForLoadState ''networkidle'', None)],
    None)"
  by (simp add: run_defs mundo_defs)

text \<open>A run ended by an exception outside the \<open>try\<close>: A2 is never reached.\<close>

lemma corrida_sin_boton:
  "buscar_comunicaciones mundo_sin_boton entorno_ok ''/home/u'' [Some (Cadena ''A1''), Some (Cadena ''A2'')] =
   ([(Launch False, None), (NewContext True, None), (NewPage, None),
     (SetDefaultTimeout 30000, None), (Goto url_portal, None),
     (WaitForLoadState ''networkidle'', None),
     (WaitFor (First ''.form-control.z-textbox''), None),
     (Fill (Nth ''.form-control.z-textbox'' 0) (Some (Cadena ''cecilia'')), None),
     (Fill (Nth ''.form-control.z-textbox'' 1) (Some (Cadena ''secreto'')), None),
     (Click (Locator ''.btn.btn-default.z-button''), None),
     (WaitForLoadState ''networkidle'', None), (Sleep 2000, None),
     (Fill (Nth ''.z-textbox'' 0) (Some (Cadena ''A1'')), None),
     (Click (Nth ''.z-button'' 2), Some (Exception ''Timeout 30000ms exceeded.''))],
    Some (Exception ''Timeout 30000ms exceeded.''))"
  by (simp add: run_defs mundo_sin_boton_def)

text \<open>Three identifiers, the download of the second failing.\<close>

theorem consumo_secuencial_ejemplo:
  "snd (buscar_comunicaciones (mundo_falla (Some (Cadena ''A2'')) msg_timeout) entorno_ok ''/home/u''
        [Some (Cadena ''A1''), Some (Cadena ''A2''), Some (Cadena ''A3'')]) = None
   \<and> buscados (fst (buscar_comunicaciones (mundo_falla (Some (Cadena ''A2'')) msg_timeout) entorno_ok
        ''/home/u'' [Some (Cadena ''A1''), Some (Cadena ''A2''), Some (Cadena ''A3'')])) = [Some (Cadena ''A1''), Some (Cadena ''A2''), Some (Cadena ''A3'')]
   \<and> abiertos (fst (buscar_comunicaciones (mundo_falla (Some (Cadena ''A2'')) msg_timeout) entorno_ok
        ''/home/u'' [Some (Cadena ''A1''), Some (Cadena ''A2''), Some (Cadena ''A3'')])) = [Some (Cadena ''A1''), Some (Cadena ''A2''), Some (Cadena ''A3'')]
   \<and> descargas_intentadas (fst (buscar_comunicaciones (mundo_falla (Some (Cadena ''A2'')) msg_timeout)
        entorno_ok ''/home/u'' [Some (Cadena ''A1''), Some (Cadena ''A2''), Some (Cadena ''A3'')]))
       = [Some (Cadena ''A1''), Some (Cadena ''A2''), Some (Cadena ''A3'')]"
proof -
  have fin: "snd (buscar_comunicaciones (mundo_falla (Some (Cadena ''A2'')) msg_timeout) entorno_ok ''/home/u''
        [Some (Cadena ''A1''), Some (Cadena ''A2''), Some (Cadena ''A3'')]) = None"
    by (simp add: corrida_a2)
  show ?thesis
    using consumo_secuencial [of "mundo_falla (Some (Cadena ''A2'')) msg_timeout" entorno_ok "''/home/u''"
        "[Some (Cadena ''A1''), Some (Cadena ''A2''), Some (Cadena ''A3'')]"] fin
    by simp
qed





lemma bucle_extiende: "prefix h (fst (bucle w home cs h))"
  using bucle_obs [of w home cs h] by auto

lemma intento_descarga_forma:
  "intento_descarga w home h =
     (case interactua w h clic_descarga of
        Some e \<Rightarrow> (h @ [(clic_descarga, Some e)], Some e)
      | None \<Rightarrow>
          secuencia w
            [SaveAs (transferencia w (h @ [(clic_descarga, None)]))
               (ruta_guardado home (transferencia w (h @ [(clic_descarga, None)]))),
             Sleep 500]
            (h @ [(clic_descarga, None)]))"
  by (simp add: intento_descarga_def hacer_eq Let_def split: option.splits)

lemma bucle_tras_intento:
  assumes "secuencia w (pasos_busqueda c) h = (h1, None)"
  shows "prefix (fst (intento_descarga w home h1)) (fst (bucle w home (c # cs) h))"
proof -
  obtain h2 r2 where s2: "intento_descarga w home h1 = (h2, r2)"
    by (cases "intento_descarga w home h1")
  show ?thesis
  proof (cases r2)
    case None
    obtain h3 r3 where s3: "secuencia w pasos_volver h2 = (h3, r3)"
      by (cases "secuencia w pasos_volver h2")
    have p23: "prefix h2 h3" using secuencia_extiende [of h2 w pasos_volver] by (simp add: s3)
    have "prefix h3 (fst (bucle w home (c # cs) h))"
      using assms None s2 s3 bucle_extiende [of h3 w home cs] by (cases r3) simp_all
    with p23 show ?thesis by (simp add: s2)
  next
    case (Some e)
    show ?thesis
    proof (cases e)
      case Interrupcion
      then show ?thesis using assms Some s2 by simp
    next
      case (Exception m)
      define h3 where "h3 = h2 @ [(Print (prefijo_error @ m), interactua w h2 (Print (prefijo_error @ m)))]"
      have p23: "prefix h2 h3" by (simp add: h3_def)
      have "prefix h3 (fst (bucle w home (c # cs) h))"
        using assms Some Exception s2 bucle_extiende [of h3 w home cs]
        by (cases "interactua w h2 (Print (prefijo_error @ m))") (simp_all add: hacer_eq h3_def)
      with p23 show ?thesis by (simp add: s2)
    qed
  qed
qed

lemma os_path_join_relativo:
  assumes "home \<noteq> []" and "last home \<noteq> CHR ''/''" and "nombre = [] \<or> hd nombre \<noteq> CHR ''/''"
  shows "os_path_join home [''Downloads'', nombre] = home @ ''/Downloads/'' @ nombre"
  using assms by (auto simp: os_path_join_def unir_def)

text \<open>
  Claim C6. Once the search and opening of an identifier have returned, the next event
  is the click on the first \<open>.z-icon-download\<close> element under
  \<open>expect_download\<close> with a timeout of 30000 ms; when it returns, the event after it
  saves the delivered download at \<open>os.path.join(home, "Downloads", suggested_filename)\<close>,
  which is \<open>home/Downloads/suggested_filename\<close> for a home directory not ending in a
  slash and a file name not starting with one.
\<close>

theorem paso_de_descarga:
  assumes "secuencia w (pasos_busqueda c) h = (h1, None)"
  shows "prefix (h1 @ [(ExpectDownloadClick 30000 (Nth ''.z-icon-download'' 0),
                       interactua w h1 (ExpectDownloadClick 30000 (Nth ''.z-icon-download'' 0)))])
           (fst (bucle w home (c # cs) h))
       \<and> (interactua w h1 (ExpectDownloadClick 30000 (Nth ''.z-icon-download'' 0)) = None \<longrightarrow>
            (let h2 = h1 @ [(ExpectDownloadClick 30000 (Nth ''.z-icon-download'' 0), None)];
                 d = transferencia w h2;
                 p = os_path_join home [''Downloads'', suggested_filename d]
             in prefix (h2 @ [(SaveAs d p, interactua w h2 (SaveAs d p))])
                  (fst (bucle w home (c # cs) h))
              \<and> (home \<noteq> [] \<and> last home \<noteq> CHR ''/''
                  \<and> (suggested_filename d = [] \<or> hd (suggested_filename d) \<noteq> CHR ''/'')
                  \<longrightarrow> p = home @ ''/Downloads/'' @ suggested_filename d)))"
proof -
  let ?clic = "ExpectDownloadClick 30000 (Nth ''.z-icon-download'' 0)"
  note tras = bucle_tras_intento [OF assms, of home cs]
  have uno: "prefix (h1 @ [(?clic, interactua w h1 ?clic)]) (fst (intento_descarga w home h1))"
  proof (cases "interactua w h1 ?clic")
    case None
    then show ?thesis
      using secuencia_extiende [of "h1 @ [(?clic, None)]" w]
      by (simp add: intento_descarga_forma clic_descarga_def del: secuencia.simps)
  next
    case (Some e)
    then show ?thesis by (simp add: intento_descarga_forma clic_descarga_def)
  qed
  have dos: "prefix ((h1 @ [(?clic, None)]) @ [(SaveAs d p, interactua w (h1 @ [(?clic, None)]) (SaveAs d p))])
      (fst (intento_descarga w home h1))"
    if "interactua w h1 ?clic = None" "d = transferencia w (h1 @ [(?clic, None)])"
      "p = os_path_join home [''Downloads'', suggested_filename d]" for d p
  proof (cases "interactua w (h1 @ [(?clic, None)]) (SaveAs d p)")
    case None
    then show ?thesis
      using that
      by (simp add: intento_descarga_forma clic_descarga_def ruta_guardado_def hacer_eq
          split: option.splits)
  next
    case (Some e)
    then show ?thesis
      using that
      by (simp add: intento_descarga_forma clic_descarga_def ruta_guardado_def hacer_eq)
  qed
  show ?thesis
    using prefix_order.trans [OF uno tras] prefix_order.trans [OF dos tras] os_path_join_relativo
    by (simp add: Let_def)
qed

text \<open>One identifier in a world where every action returns.\<close>

theorem paso_de_descarga_ejemplo:
  "secuencia mundo_ok (pasos_busqueda (Some (Cadena ''A1''))) [] =
     ([(Fill (Nth ''.z-textbox'' 0) (Some (Cadena ''A1'')), None), (Click (Nth ''.z-button'' 2), None),
       (WaitForLoadState ''networkidle'', None), (Sleep 1000, None),
       (Click (Nth ''.boton-sin-caja.z-button'' 29), None),
       (WaitForLoadState ''networkidle'', None), (Sleep 1000, None)], None)
   \<and> prefix
       [(Fill (Nth ''.z-textbox'' 0) (Some (Cadena ''A1'')), None), (Click (Nth ''.z-button'' 2), None),
        (WaitForLoadState ''networkidle'', None), (Sleep 1000, None),
        (Click (Nth ''.boton-sin-caja.z-button'' 29), None),
        (WaitForLoadState ''networkidle'', None), (Sleep 1000, None),
        (ExpectDownloadClick 30000 (Nth ''.z-icon-download'' 0), None),
        (SaveAs \<lparr>suggested_filename = ''documento.pdf'', contenido = ''A1''\<rparr>
           ''/home/u/Downloads/documento.pdf'', None)]
       (fst (bucle mundo_ok ''/home/u'' [Some (Cadena ''A1'')] []))"
proof -
  have s: "secuencia mundo_ok (pasos_busqueda (Some (Cadena ''A1''))) [] =
     ([(Fill (Nth ''.z-textbox'' 0) (Some (Cadena ''A1'')), None), (Click (Nth ''.z-button'' 2), None),
       (WaitForLoadState ''networkidle'', None), (Sleep 1000, None),
       (Click (Nth ''.boton-sin-caja.z-button'' 29), None),
       (WaitForLoadState ''networkidle'', None), (Sleep 1000, None)], None)"
    by (simp add: pasos_busqueda_def hacer_eq mundo_ok_def)
  show ?thesis
    using paso_de_descarga [OF s, of "''/home/u''" "[]"] s
    by (simp add: mundo_defs Let_def)
qed

text \<open>
  Claim C5, as the code has it. When the download step of an identifier raises an
  \<open>Exception\<close> with text \<open>m\<close>, the next event prints the fixed prefix followed by
  \<open>m\<close>: the message is made of the exception's text, not of the identifier.
\<close>

theorem error_impreso_es_el_de_la_excepcion:
  assumes "secuencia w (pasos_busqueda c) h = (h1, None)"
    and "intento_descarga w home h1 = (h2, Some (Exception m))"
  shows "prefix (h2 @ [(Print (prefijo_error @ m), interactua w h2 (Print (prefijo_error @ m)))])
           (fst (bucle w home (c # cs) h))"
  using assms
    bucle_extiende [of "h2 @ [(Print (prefijo_error @ m), interactua w h2 (Print (prefijo_error @ m)))]"
      w home cs]
  by (cases "interactua w h2 (Print (prefijo_error @ m))") (simp_all add: hacer_eq)

text \<open>The identifier A2 with its download timing out.\<close>

theorem error_impreso_ejemplo:
  "prefix
     [(Fill (Nth ''.z-textbox'' 0) (Some (Cadena ''A2'')), None), (Click (Nth ''.z-button'' 2), None),
      (WaitForLoadState ''networkidle'', None), (Sleep 1000, None),
      (Click (Nth ''.boton-sin-caja.z-button'' 29), None),
      (WaitForLoadState ''networkidle'', None), (Sleep 1000, None),
      (clic_descarga, Some (Exception msg_timeout)),
      (Print (prefijo_error @ msg_timeout), None)]
     (fst (bucle (mundo_falla (Some (Cadena ''A2'')) msg_timeout) ''/home/u'' [Some (Cadena ''A2'')] []))"
proof -
  let ?w = "mundo_falla (Some (Cadena ''A2'')) msg_timeout"
  let ?h1 = "[(Fill (Nth ''.z-textbox'' 0) (Some (Cadena ''A2'')), None), (Click (Nth ''.z-button'' 2), None),
      (WaitForLoadState ''networkidle'', None), (Sleep 1000, None),
      (Click (Nth ''.boton-sin-caja.z-button'' 29), None),
      (WaitForLoadState ''networkidle'', None), (Sleep 1000, None)]"
  have s1: "secuencia ?w (pasos_busqueda (Some (Cadena ''A2''))) [] = (?h1, None)"
    by (simp add: pasos_busqueda_def hacer_eq mundo_falla_def clic_descarga_def)
  have s2: "intento_descarga ?w ''/home/u'' ?h1 =
      (?h1 @ [(clic_descarga, Some (Exception msg_timeout))], Some (Exception msg_timeout))"
    by (simp add: intento_descarga_forma mundo_falla_def en_curso_def paso_actual_def)
  show ?thesis
    using error_impreso_es_el_de_la_excepcion [OF s1 s2, of "[]"]
    by (simp add: mundo_falla_def clic_descarga_def)
qed

text \<open>
  Claim C5 as stated fails: in the run over A1, A2, A3 with the download of A2 timing
  out, the one message printed does not contain A2.
\<close>

theorem error_impreso_sin_identificador:
  "impresos (fst (buscar_comunicaciones (mundo_falla (Some (Cadena ''A2'')) msg_timeout) entorno_ok
      ''/home/u'' [Some (Cadena ''A1''), Some (Cadena ''A2''), Some (Cadena ''A3'')])) = [prefijo_error @ msg_timeout]
   \<and> \<not> contiene (prefijo_error @ msg_timeout) ''A2''"
proof -
  have "impresos (fst (buscar_comunicaciones (mundo_falla (Some (Cadena ''A2'')) msg_timeout) entorno_ok
      ''/home/u'' [Some (Cadena ''A1''), Some (Cadena ''A2''), Some (Cadena ''A3'')])) = [prefijo_error @ msg_timeout]"
    by (simp add: corrida_a2 impresos_def clic_descarga_def)
  moreover have "\<not> contiene (prefijo_error @ msg_timeout) ''A2''"
    by (simp add: prefijo_error_def msg_timeout_def)
  ultimately show ?thesis by simp
qed

lemma bucle_tras_busqueda:
  "prefix (fst (secuencia w (pasos_busqueda c) h)) (fst (bucle w home (c # cs) h))"
proof -
  obtain h1 r1 where s1: "secuencia w (pasos_busqueda c) h = (h1, r1)"
    by (cases "secuencia w (pasos_busqueda c) h")
  show ?thesis
  proof (cases r1)
    case None
    obtain h2 r2 where s2: "intento_descarga w home h1 = (h2, r2)"
      by (cases "intento_descarga w home h1")
    from descarga_obs [OF s2] have "prefix h1 h2" by auto
    moreover have "prefix h2 (fst (bucle w home (c # cs) h))"
      using bucle_tras_intento [of w c h h1 home cs] s1 None by (simp add: s2)
    ultimately show ?thesis by (simp add: s1)
  next
    case (Some e)
    then show ?thesis by (simp add: s1)
  qed
qed

lemma primer_evento:
  "prefix (h @ [(Fill (Nth ''.z-textbox'' 0) c, interactua w h (Fill (Nth ''.z-textbox'' 0) c))])
     (fst (bucle w home (c # cs) h))"
proof -
  let ?a = "Fill (Nth ''.z-textbox'' 0) c"
  obtain rest where p: "pasos_busqueda c = ?a # rest"
    by (simp add: pasos_busqueda_def)
  have "prefix (h @ [(?a, interactua w h ?a)]) (fst (secuencia w (pasos_busqueda c) h))"
  proof (cases "interactua w h ?a")
    case None
    then show ?thesis
      using secuencia_extiende [of "h @ [(?a, None)]" w rest] by (simp add: p hacer_eq)
  next
    case (Some e)
    then show ?thesis by (simp add: p hacer_eq)
  qed
  then show ?thesis
    using bucle_tras_busqueda [of w c h home cs] by (rule prefix_order.trans)
qed

text \<open>
  In any world: when the download step of an identifier raises an \<open>Exception\<close> and
  the message is printed, the event that follows is the search fill of the next
  identifier. The steps of lines 72 to 74 are not run in between.
\<close>

lemma fallo_salta_el_regreso:
  assumes "secuencia w (pasos_busqueda c) h = (h1, None)"
    and "intento_descarga w home h1 = (h2, Some (Exception m))"
    and "interactua w h2 (Print (prefijo_error @ m)) = None"
  shows "prefix
           (h2 @ [(Print (prefijo_error @ m), None),
                  (Fill (Nth ''.z-textbox'' 0) c',
                   interactua w (h2 @ [(Print (prefijo_error @ m), None)])
                     (Fill (Nth ''.z-textbox'' 0) c'))])
           (fst (bucle w home (c # c' # cs) h))"
proof -
  have "bucle w home (c # c' # cs) h =
      bucle w home (c' # cs) (h2 @ [(Print (prefijo_error @ m), None)])"
    by (subst bucle.simps(2)) (simp add: assms hacer_eq del: bucle.simps)
  then show ?thesis
    using primer_evento [of "h2 @ [(Print (prefijo_error @ m), None)]" c' w home cs] by simp
qed

text \<open>
  Claim C4 at a failing download. In the run over A1, A2 with the download of A1 timing
  out, the message is printed and the very next event is the search fill of A2: the
  click that returns to the list (line 72) happens after A2 only.
\<close>

theorem fallo_no_vuelve_a_la_lista:
  "buscar_comunicaciones (mundo_falla (Some (Cadena ''A1'')) msg_timeout) entorno_ok ''/home/u''
     [Some (Cadena ''A1''), Some (Cadena ''A2'')] =
   ([(Launch False, None), (NewContext True, None), (NewPage, None),
     (SetDefaultTimeout 30000, None), (Goto url_portal, None),
     (WaitForLoadState ''networkidle'', None),
     (WaitFor (First ''.form-control.z-textbox''), None),
     (Fill (Nth ''.form-control.z-textbox'' 0) (Some (Cadena ''cecilia'')), None),
     (Fill (Nth ''.form-control.z-textbox'' 1) (Some (Cadena ''secreto'')), None),
     (Click (Locator ''.btn.btn-default.z-button''), None),
     (WaitForLoadState ''networkidle'', None), (Sleep 2000, None),
     (Fill (Nth ''.z-textbox'' 0) (Some (Cadena ''A1'')), None),
     (Click (Nth ''.z-button'' 2), None),
     (WaitForLoadState ''networkidle'', None), (Sleep 1000, None),
     (Click (Nth ''.boton-sin-caja.z-button'' 29), None),
     (WaitForLoadState ''networkidle'', None), (Sleep 1000, None),
     (ExpectDownloadClick 30000 (Nth ''.z-icon-download'' 0), Some (Exception msg_timeout)),
     (Print (prefijo_error @ msg_timeout), None),
     (Fill (Nth ''.z-textbox'' 0) (Some (Cadena ''A2'')), None),
     (Click (Nth ''.z-button'' 2), None),
     (WaitForLoadState ''networkidle'', None), (Sleep 1000, None),
     (Click (Nth ''.boton-sin-caja.z-button'' 29), None),
     (WaitForLoadState ''networkidle'', None), (Sleep 1000, None),
     (ExpectDownloadClick 30000 (Nth ''.z-icon-download'' 0), None),
     (SaveAs \<lparr>suggested_filename = ''documento.pdf'', contenido = ''A2''\<rparr>
        ''/home/u/Downloads/documento.pdf'', None),
     (Sleep 500, None), (Click (Nth ''.btn.z-button'' 0), None),
     (Sleep 1000, None), (WaitForLoadState ''networkidle'', None)],
    None)"
  by (simp add: run_defs mundo_defs)

section \<open>Where downloads are saved\<close>

lemma secuencia_inv:
  assumes "\<And>a r. a \<in> set as \<Longrightarrow> Q (a, r)" and "\<forall>ev\<in>set h. Q ev"
  shows "\<forall>ev\<in>set (fst (secuencia w as h)). Q ev"
  using assms
proof (induction as arbitrary: h)
  case Nil
  then show ?case by simp
next
  case (Cons a as)
  have paso: "\<forall>ev\<in>set (h @ [(a, interactua w h a)]). Q ev"
    using Cons.prems by simp
  show ?case
  proof (cases "interactua w h a")
    case None
    have "\<forall>ev\<in>set (fst (secuencia w as (h @ [(a, None)]))). Q ev"
      using Cons.prems(1) paso None by (intro Cons.IH) simp_all
    then show ?thesis using None by (simp add: hacer_eq)
  next
    case (Some e)
    then show ?thesis using paso by (simp add: hacer_eq)
  qed
qed

lemma intento_inv:
  assumes otros: "\<And>a r. (\<forall>d p. a \<noteq> SaveAs d p) \<Longrightarrow> Q (a, r)"
    and guardar: "\<And>d r. Q (SaveAs d (ruta_guardado home d), r)"
    and h: "\<forall>ev\<in>set h. Q ev"
  shows "\<forall>ev\<in>set (fst (intento_descarga w home h)). Q ev"
proof (cases "interactua w h clic_descarga")
  case None
  have "\<forall>ev\<in>set (h @ [(clic_descarga, None)]). Q ev"
    using h otros [of clic_descarga None] by (simp add: clic_descarga_def)
  then have "\<forall>ev\<in>set (fst (secuencia w
      [SaveAs (transferencia w (h @ [(clic_descarga, None)]))
         (ruta_guardado home (transferencia w (h @ [(clic_descarga, None)]))), Sleep 500]
      (h @ [(clic_descarga, None)]))). Q ev"
    by (intro secuencia_inv) (auto intro: guardar otros)
  then show ?thesis using None by (simp add: intento_descarga_forma del: secuencia.simps)
next
  case (Some e)
  then show ?thesis
    using h otros [of clic_descarga "Some e"]
    by (simp add: intento_descarga_forma clic_descarga_def)
qed

lemma bucle_inv:
  assumes otros: "\<And>a r. (\<forall>d p. a \<noteq> SaveAs d p) \<Longrightarrow> Q (a, r)"
    and guardar: "\<And>d r. Q (SaveAs d (ruta_guardado home d), r)"
    and h: "\<forall>ev\<in>set h. Q ev"
  shows "\<forall>ev\<in>set (fst (bucle w home cs h)). Q ev"
  using h
proof (induction cs arbitrary: h)
  case Nil
  then show ?case by simp
next
  case (Cons c cs)
  obtain h1 r1 where s1: "secuencia w (pasos_busqueda c) h = (h1, r1)"
    by (cases "secuencia w (pasos_busqueda c) h")
  have "\<forall>ev\<in>set (fst (secuencia w (pasos_busqueda c) h)). Q ev"
    by (rule secuencia_inv) (auto simp: pasos_busqueda_def Cons.prems intro: otros)
  then have q1: "\<forall>ev\<in>set h1. Q ev"
    by (simp add: s1)
  show ?case
  proof (cases r1)
    case (Some e)
    then show ?thesis using q1 by (simp add: s1)
  next
    case None
    obtain h2 r2 where s2: "intento_descarga w home h1 = (h2, r2)"
      by (cases "intento_descarga w home h1")
    have q2: "\<forall>ev\<in>set h2. Q ev"
      using intento_inv [of Q home h1 w, OF otros guardar q1] by (simp add: s2)
    show ?thesis
    proof (cases r2)
      case None2: None
      obtain h3 r3 where s3: "secuencia w pasos_volver h2 = (h3, r3)"
        by (cases "secuencia w pasos_volver h2")
      have "\<forall>ev\<in>set (fst (secuencia w pasos_volver h2)). Q ev"
        by (rule secuencia_inv) (auto simp: pasos_volver_def q2 intro: otros)
      then have q3: "\<forall>ev\<in>set h3. Q ev"
        by (simp add: s3)
      show ?thesis
        using None None2 q3 Cons.IH [OF q3] by (cases r3) (simp_all add: s1 s2 s3)
    next
      case (Some e)
      show ?thesis
      proof (cases e)
        case Interrupcion
        then show ?thesis using None Some q2 by (simp add: s1 s2)
      next
        case (Exception m)
        define h3 where "h3 = h2 @ [(Print (prefijo_error @ m), interactua w h2 (Print (prefijo_error @ m)))]"
        have q3: "\<forall>ev\<in>set h3. Q ev"
          using q2 otros [of "Print (prefijo_error @ m)"] by (simp add: h3_def)
        show ?thesis
          using None Some Exception q3 Cons.IH [OF q3]
          by (cases "interactua w h2 (Print (prefijo_error @ m))")
            (simp_all add: s1 s2 hacer_eq h3_def)
      qed
    qed
  qed
qed

lemma buscar_inv:
  assumes otros: "\<And>a r. (\<forall>d p. a \<noteq> SaveAs d p) \<Longrightarrow> Q (a, r)"
    and guardar: "\<And>d r. Q (SaveAs d (ruta_guardado home d), r)"
  shows "\<forall>ev\<in>set (fst (buscar_comunicaciones w entorno home cs)). Q ev"
proof -
  obtain h r where s0: "secuencia w pasos_inicio [] = (h, r)"
    by (cases "secuencia w pasos_inicio []")
  have "\<forall>ev\<in>set (fst (secuencia w pasos_inicio [])). Q ev"
    by (rule secuencia_inv) (auto simp: pasos_inicio_def intro: otros)
  then have q0: "\<forall>ev\<in>set h. Q ev"
    by (simp add: s0)
  show ?thesis
  proof (cases "\<exists>user password. r = None \<and> entorno env_user = Some user
      \<and> entorno env_password = Some password")
    case False
    then have "fst (buscar_comunicaciones w entorno home cs) = h"
      by (auto simp: buscar_comunicaciones_def s0 split: option.splits)
    then show ?thesis using q0 by simp
  next
    case True
    then obtain user password where c: "r = None" "entorno env_user = Some user"
      "entorno env_password = Some password" by blast
    obtain h1 r1 where s1: "secuencia w (pasos_login user password) h = (h1, r1)"
      by (cases "secuencia w (pasos_login user password) h")
    have "\<forall>ev\<in>set (fst (secuencia w (pasos_login user password) h)). Q ev"
      by (rule secuencia_inv) (auto simp: pasos_login_def q0 intro: otros)
    then have q1: "\<forall>ev\<in>set h1. Q ev"
      by (simp add: s1)
    show ?thesis
      using c q1 bucle_inv [of Q home h1 w cs, OF otros guardar q1]
      by (cases r1) (simp_all add: buscar_comunicaciones_def s0 s1)
  qed
qed

lemma guardado_en_ruta:
  assumes "(SaveAs d p, r) \<in> set (fst (buscar_comunicaciones w entorno home cs))"
  shows "p = ruta_guardado home d"
proof -
  have "\<forall>ev\<in>set (fst (buscar_comunicaciones w entorno home cs)).
      (case fst ev of SaveAs d p \<Rightarrow> p = ruta_guardado home d | _ \<Rightarrow> True)"
    by (rule buscar_inv) (auto split: accion.splits)
  with assms show ?thesis by fastforce
qed

lemma disco_intacto:
  "\<forall>ev\<in>set t. ruta_de ev \<noteq> Some p \<Longrightarrow> foldl escribir fs t p = fs p"
proof (induction t arbitrary: fs)
  case Nil
  then show ?case by simp
next
  case (Cons ev t)
  then have "foldl escribir (escribir fs ev) t p = escribir fs ev p" by simp
  also have "escribir fs ev p = fs p"
    using Cons.prems
    by (auto simp: escribir_def ruta_de_def split: prod.splits accion.splits option.splits)
  finally show ?case by simp
qed

text \<open>
  Claim C10. Every save of a run goes to \<open>os.path.join(home, "Downloads", name)\<close> for
  the name the download suggests, which involves no identifier. So two saves of a run
  whose downloads suggest the same name have the same path, and when the later one
  returns and nothing is saved at that path after it, the file there holds the later
  download's content.
\<close>

theorem descargas_mismo_nombre:
  assumes "fst (buscar_comunicaciones w entorno home cs) =
      t1 @ [(SaveAs d1 p1, r1)] @ t2 @ [(SaveAs d2 p2, None)] @ t3"
    and "suggested_filename d1 = suggested_filename d2"
    and "\<forall>ev\<in>set t3. ruta_de ev \<noteq> Some p2"
  shows "p1 = os_path_join home [''Downloads'', suggested_filename d1]
       \<and> p2 = p1
       \<and> disco_tras (fst (buscar_comunicaciones w entorno home cs)) p2 = Some (contenido d2)"
proof -
  have "(SaveAs d1 p1, r1) \<in> set (fst (buscar_comunicaciones w entorno home cs))"
    by (simp add: assms(1))
  then have "p1 = ruta_guardado home d1"
    by (rule guardado_en_ruta)
  moreover have "(SaveAs d2 p2, None) \<in> set (fst (buscar_comunicaciones w entorno home cs))"
    by (simp add: assms(1))
  then have "p2 = ruta_guardado home d2"
    by (rule guardado_en_ruta)
  ultimately have "p1 = ruta_guardado home d1" and "p2 = ruta_guardado home d2"
    by simp_all
  then have rutas: "p1 = os_path_join home [''Downloads'', suggested_filename d1]" "p2 = p1"
    using assms(2) by (simp_all add: ruta_guardado_def)
  have "disco_tras (fst (buscar_comunicaciones w entorno home cs)) p2 =
      foldl escribir (escribir (foldl escribir Map.empty (t1 @ [(SaveAs d1 p1, r1)] @ t2))
        (SaveAs d2 p2, None)) t3 p2"
    by (simp add: assms(1) disco_tras_def)
  also have "\<dots> = escribir (foldl escribir Map.empty (t1 @ [(SaveAs d1 p1, r1)] @ t2))
        (SaveAs d2 p2, None) p2"
    by (rule disco_intacto) (rule assms(3))
  also have "\<dots> = Some (contenido d2)"
    by (simp add: escribir_def)
  finally show ?thesis using rutas by simp
qed

lemma corrida_ok_a1_a2:
  "fst (buscar_comunicaciones mundo_ok entorno_ok ''/home/u'' [Some (Cadena ''A1''), Some (Cadena ''A2'')]) =
    [(Launch False, None), (NewContext True, None), (NewPage, None),
     (SetDefaultTimeout 30000, None), (Goto url_portal, None),
     (WaitForLoadState ''networkidle'', None),
     (WaitFor (First ''.form-control.z-textbox''), None),
     (Fill (Nth ''.form-control.z-textbox'' 0) (Some (Cadena ''cecilia'')), None),
     (Fill (Nth ''.form-control.z-textbox'' 1) (Some (Cadena ''secreto'')), None),
     (Click (Locator ''.btn.btn-default.z-button''), None),
     (WaitForLoadState ''networkidle'', None), (Sleep 2000, None),
     (Fill (Nth ''.z-textbox'' 0) (Some (Cadena ''A1'')), None),
     (Click (Nth ''.z-button'' 2), None),
     (WaitForLoadState ''networkidle'', None), (Sleep 1000, None),
     (Click (Nth ''.boton-sin-caja.z-button'' 29), None),
     (WaitForLoadState ''networkidle'', None), (Sleep 1000, None),
     (clic_descarga, None)]
    @ [(SaveAs \<lparr>suggested_filename = ''documento.pdf'', contenido = ''A1''\<rparr>
        ''/home/u/Downloads/documento.pdf'', None)]
    @ [(Sleep 500, None), (Click (Nth ''.btn.z-button'' 0), None),
     (Sleep 1000, None), (WaitForLoadState ''networkidle'', None),
     (Fill (Nth ''.z-textbox'' 0) (Some (Cadena ''A2'')), None),
     (Click (Nth ''.z-button'' 2), None),
     (WaitForLoadState ''networkidle'', None), (Sleep 1000, None),
     (Click (Nth ''.boton-sin-caja.z-button'' 29), None),
     (WaitForLoadState ''networkidle'', None), (Sleep 1000, None),
     (clic_descarga, None)]
    @ [(SaveAs \<lparr>suggested_filename = ''documento.pdf'', contenido = ''A2''\<rparr>
        ''/home/u/Downloads/documento.pdf'', None)]
    @ [(Sleep 500, None), (Click (Nth ''.btn.z-button'' 0), None),
     (Sleep 1000, None), (WaitForLoadState ''networkidle'', None)]"
  by (simp add: run_defs mundo_defs)

text \<open>A1 and A2, both downloads named \<open>documento.pdf\<close>.\<close>

theorem descargas_mismo_nombre_ejemplo:
  "disco_tras (fst (buscar_comunicaciones mundo_ok entorno_ok ''/home/u''
      [Some (Cadena ''A1''), Some (Cadena ''A2'')])) ''/home/u/Downloads/documento.pdf'' = Some ''A2''
   \<and> ''/home/u/Downloads/documento.pdf'' = os_path_join ''/home/u'' [''Downloads'', ''documento.pdf'']"
proof -
  have t3: "\<forall>ev\<in>set [(Sleep 500, None), (Click (Nth ''.btn.z-button'' 0), None),
     (Sleep 1000, None), (WaitForLoadState ''networkidle'', None)].
       ruta_de ev \<noteq> Some ''/home/u/Downloads/documento.pdf''"
    by (simp add: ruta_de_def)
  have n: "suggested_filename \<lparr>suggested_filename = ''documento.pdf'', contenido = ''A1''\<rparr> =
      suggested_filename \<lparr>suggested_filename = ''documento.pdf'', contenido = ''A2''\<rparr>"
    by simp
  show ?thesis
    using descargas_mismo_nombre [OF corrida_ok_a1_a2 n t3]
    by (simp add: os_path_join_def unir_def)
qed

end
